theory Spec2Isabelle
  imports Main
begin

section \<open>Values exchanged with the collaborators\<close>

text \<open>
  The response handler of \<^verbatim>\<open>OpenAIResponseHandler\<close> talks to four collaborators: the
  assistant run stream, the run control of the AI client, the chat client with its channel,
  and the search provider. Their calls are recorded as a trace of effects, in the order the
  handler issues them. Calls to the channel and to the message store are taken to resolve;
  the failures the source handles itself (a rejected cancel, a rejected HTTP request, an
  argument blob that does not parse, an index into an empty content array, a stream whose
  iterator rejects) are branches of the model, and so is the TypeError of a template
  literal that is given a value it cannot print.
\<close>

subsection \<open>JSON\<close>

text \<open>
  A JSON value. The program never computes with the numbers of a provider payload, it only
  passes them on; the numbers it builds itself (\<^verbatim>\<open>max_results: 5\<close>, an HTTP status) are
  integers.
\<close>

datatype json =
    JNull
  | JBool bool
  | JNum int
  | JStr string
  | JArr "json list"
  | JObj "(string \<times> json) list"

text \<open>
  A string that carries JSON: either the text of a value, as \<^verbatim>\<open>JSON.stringify\<close> writes it,
  or a string that is no JSON text at all, on which \<^verbatim>\<open>JSON.parse\<close> throws.
\<close>

datatype json_text = Encoded json | Malformed string

text \<open>
  A thrown value, by what the handler reads from it: \<^verbatim>\<open>error.message\<close> (undefined for a
  thrown value that is no Error object) and \<^verbatim>\<open>error.toString()\<close>.
\<close>

datatype thrown = Thrown (err_message: "string option") (err_toString: string)

definition new_Error :: "string \<Rightarrow> thrown" where
  "new_Error m = Thrown (Some m) (if m = [] then ''Error'' else ''Error: '' @ m)"

definition JSON_stringify :: "json \<Rightarrow> json_text" where
  "JSON_stringify v = Encoded v"

definition JSON_parse :: "json_text \<Rightarrow> thrown + json" where
  "JSON_parse t =
     (case t of
        Encoded v \<Rightarrow> Inr v
      | Malformed s \<Rightarrow> Inl (Thrown (Some ''Unexpected token'') ''SyntaxError: Unexpected token''))"

text \<open>
  \<^verbatim>\<open>args.query\<close>: reading a property of \<^verbatim>\<open>null\<close> throws a TypeError; an object gives the
  property's value, or undefined (\<open>None\<close>) when it has none; every other JSON value has no
  such property.
\<close>

definition get_query :: "json \<Rightarrow> thrown + json option" where
  "get_query args =
     (case args of
        JNull \<Rightarrow> Inl (Thrown (Some ''Cannot read properties of null (reading 'query')'')
                   ''TypeError: Cannot read properties of null (reading 'query')'')
      | JObj kvs \<Rightarrow> Inr (map_of (rev kvs) ''query'')
      | _ \<Rightarrow> Inr None)"

text \<open>JavaScript truthiness of a JSON value, as \<^verbatim>\<open>||\<close> tests it.\<close>

definition truthy :: "json \<Rightarrow> bool" where
  "truthy v =
     (case v of
        JNull \<Rightarrow> False
      | JBool b \<Rightarrow> b
      | JNum n \<Rightarrow> n \<noteq> 0
      | JStr s \<Rightarrow> s \<noteq> []
      | _ \<Rightarrow> True)"

text \<open>The decimal digits of an HTTP status, as a template literal prints a number.\<close>

fun decimal :: "nat \<Rightarrow> string" where
  "decimal n =
     (if n < 10 then [''0123456789'' ! n]
      else decimal (n div 10) @ [''0123456789'' ! (n mod 10)])"

text \<open>
  Whether a template literal can print a value. The conversion of an object to a string
  calls its \<^verbatim>\<open>toString\<close>: an object parsed from JSON that has a property of that name
  hides the method of the prototype behind a value that cannot be called, its \<^verbatim>\<open>valueOf\<close>
  gives no primitive either, and the conversion throws a TypeError. Every other object
  prints as \<^verbatim>\<open>[object Object]\<close>. An array prints its elements, \<^verbatim>\<open>null\<close> as the empty string,
  and throws where one of them does.
\<close>

fun printable :: "json \<Rightarrow> bool" where
  "printable (JArr xs) = list_all printable xs"
| "printable (JObj kvs) = (''toString'' \<notin> set (map fst kvs))"
| "printable _ = True"

text \<open>The same for \<^verbatim>\<open>${query}\<close>, where an undefined query prints as \<^verbatim>\<open>undefined\<close>.\<close>

definition printable_query :: "json option \<Rightarrow> bool" where
  "printable_query query = (case query of None \<Rightarrow> True | Some q \<Rightarrow> printable q)"

definition cannot_convert :: thrown where
  "cannot_convert =
     Thrown (Some ''Cannot convert object to primitive value'')
            ''TypeError: Cannot convert object to primitive value''"

subsection \<open>Stream events\<close>

text \<open>
  A tool call of a requires-action event: \<^verbatim>\<open>toolCall.id\<close>, \<^verbatim>\<open>toolCall.function.name\<close> and
  \<^verbatim>\<open>toolCall.function.arguments\<close>.
\<close>

record tool_call =
  tc_id :: string
  fn_name :: string
  fn_arguments :: json_text

record tool_output =
  tool_call_id :: string
  output_str :: json_text

text \<open>
  The payload of the \<^verbatim>\<open>thread.run.*\<close> events. A required action of the API has the single
  type \<^verbatim>\<open>submit_tool_outputs\<close>, so \<^verbatim>\<open>required_action?.type === "submit_tool_outputs"\<close> holds
  exactly when the field is not null: the field is the list of tool calls, or \<open>None\<close>.
  \<open>last_error\<close> is the message of \<^verbatim>\<open>last_error\<close>, or \<open>None\<close> when that is null.
\<close>

record run_data =
  run_ident :: string
  required_action :: "tool_call list option"
  last_error :: "string option"

text \<open>
  A content block of a message delta: a text block with its optional \<^verbatim>\<open>text\<close> object, which
  has an optional \<^verbatim>\<open>value\<close>; or a block of another type.
\<close>

datatype delta_block = TextDeltaBlock "string option option" | OtherDeltaBlock

text \<open>A content block of a completed message: a text block with its value, or another.\<close>

datatype content_block = TextContentBlock string | OtherContentBlock

datatype step_details = Message_creation | Tool_calls

datatype event =
    ThreadRunCreated run_data
  | ThreadMessageDelta "delta_block list option"
  | ThreadMessageCompleted "content_block list"
  | ThreadRunStepCreated step_details
  | ThreadRunRequiresAction run_data
  | ThreadRunCompleted run_data
  | ThreadRunFailed run_data
  | OtherEvent

text \<open>
  What the iterator of a stream hands to \<^verbatim>\<open>for await\<close>: an event, with the value
  \<^verbatim>\<open>Date.now()\<close> has while the event is handled, or a rejection. A stream is the list of
  the items it still has to deliver; it ends where the list ends.
\<close>

datatype stream_item = Emit int event | Reject thrown

subsection \<open>Effects\<close>

datatype ai_state = AI_STATE_EXTERNAL_SOURCES | AI_STATE_CHECKING_SOURCES | AI_STATE_ERROR

text \<open>A channel event: its type, with \<^verbatim>\<open>cid\<close> and \<^verbatim>\<open>message_id\<close>.\<close>

datatype channel_event =
    Ai_indicator_update ai_state string string
  | Ai_indicator_clear string string

datatype log_piece = Txt string | Val "json option" | Exn thrown

datatype effect =
    SendEvent channel_event
  | PartialUpdateMessage string string "string option"
  | RunsCancel string string
  | SubmitToolOutputsStream string string "tool_output list"
  | ChatClientOn
  | ChatClientOff
  | OnDispose
  | AxiosPost json string
  | ConsoleLog "log_piece list"
  | ConsoleError "log_piece list"
  | UnhandledRejection thrown

text \<open>
  \<open>PartialUpdateMessage id text messaage\<close> is \<^verbatim>\<open>partialUpdateMessage(id, {set: ...})\<close>: the
  text set, and the second field \<^verbatim>\<open>messaage\<close> that only the error path sets.
  \<open>ChatClientOn\<close> and \<open>ChatClientOff\<close> register and remove the listener of
  \<^verbatim>\<open>ai_indicator.stop\<close>; \<open>OnDispose\<close> is the call of the disposal callback.
\<close>

subsection \<open>The environment\<close>

text \<open>
  What \<^verbatim>\<open>axios.post\<close> rejects with: an axios error (\<^verbatim>\<open>axios.isAxiosError\<close> holds), with its
  response of status and data, if there was one, and its message; or any other thrown
  value, which a template literal can print (\<open>OtherThrown\<close>) or not (\<open>OtherUnprintable\<close>).
\<close>

datatype request_error =
    AxiosError "(nat \<times> json) option" string
  | OtherThrown thrown
  | OtherUnprintable

text \<open>
  What the handler cannot decide: the search credential of the process environment; the
  outcome of the HTTP request (a rejection, or a response with its data); whether the
  cancel of a run rejects; the stream that a submission of tool outputs returns; and what a
  stream still delivers to a later iteration once \<^verbatim>\<open>break\<close> has called the \<^verbatim>\<open>return()\<close> of
  its iterator, given the items it had left.
\<close>

record env =
  TAVILY_API_KEY :: "string option"
  axios_post :: "json \<Rightarrow> string \<Rightarrow> request_error + json"
  runs_cancel :: "string \<Rightarrow> string \<Rightarrow> thrown option"
  submitToolOutputsStream :: "string \<Rightarrow> string \<Rightarrow> tool_output list \<Rightarrow> stream_item list"
  iterator_return :: "stream_item list \<Rightarrow> stream_item list"

section \<open>The response handler\<close>

record message_response =
  msg_cid :: string
  msg_id :: string
  msg_text :: string

text \<open>
  The fields of the class: the five private fields with their initial values, the
  identifier of the thread, and the reply message, whose text the handler accumulates.
\<close>

record handler =
  message_text :: string
  chunk_counter :: nat
  run_id :: string
  is_done :: bool
  last_update_time :: int
  openAiThread_id :: string
  message :: message_response

definition constructor :: "string \<Rightarrow> message_response \<Rightarrow> handler \<times> effect list" where
  "constructor thread_id msg =
     (\<lparr>message_text = [], chunk_counter = 0, run_id = [], is_done = False,
       last_update_time = 0, openAiThread_id = thread_id, message = msg\<rparr>,
      [ChatClientOn])"

subsection \<open>dispose\<close>

definition dispose :: "handler \<Rightarrow> handler \<times> effect list" where
  "dispose h =
     (if is_done h then (h, [])
      else (h\<lparr>is_done := True\<rparr>, [ChatClientOff, OnDispose]))"

subsection \<open>handleStopGenerating\<close>

text \<open>The argument is \<^verbatim>\<open>event.message_id\<close>, which the signal may lack.\<close>

definition handleStopGenerating :: "env \<Rightarrow> handler \<Rightarrow> string option \<Rightarrow> handler \<times> effect list" where
  "handleStopGenerating ev h event_message_id =
     (if is_done h \<or> event_message_id \<noteq> Some (msg_id (message h)) then (h, [])
      else
        let cancel = RunsCancel (run_id h) (openAiThread_id h) #
              (case runs_cancel ev (run_id h) (openAiThread_id h) of
                 None \<Rightarrow> []
               | Some error \<Rightarrow> [ConsoleError [Txt ''Error cancelling the run, '', Exn error]]);
            clear = SendEvent (Ai_indicator_clear (msg_cid (message h)) (msg_id (message h)));
            (h', d) = dispose h
        in (h', cancel @ [clear] @ d))"

subsection \<open>handleStreamEvent\<close>

text \<open>\<^verbatim>\<open>event.data.delta.content?.[0]\<close>: undefined without content or with none.\<close>

definition first_delta :: "delta_block list option \<Rightarrow> delta_block option" where
  "first_delta content =
     (case content of
        None \<Rightarrow> None
      | Some [] \<Rightarrow> None
      | Some (b # _) \<Rightarrow> Some b)"

definition handleStreamEvent :: "handler \<Rightarrow> int \<Rightarrow> event \<Rightarrow> thrown + handler \<times> effect list" where
  "handleStreamEvent h now e =
     (let cid = msg_cid (message h); ident = msg_id (message h) in
      case e of
        ThreadRunCreated r \<Rightarrow> Inr (h\<lparr>run_id := run_ident r\<rparr>, [])
      | ThreadMessageDelta content \<Rightarrow>
          (case first_delta content of
             Some (TextDeltaBlock (Some v)) \<Rightarrow>
               let text = msg_text (message h) @ (case v of Some s \<Rightarrow> s | None \<Rightarrow> []);
                   h1 = h\<lparr>message := (message h)\<lparr>msg_text := text\<rparr>\<rparr>
               in if now - last_update_time h1 > 1000
                  then Inr (h1\<lparr>last_update_time := now, chunk_counter := chunk_counter h1 + 1\<rparr>,
                            [PartialUpdateMessage ident text None])
                  else Inr (h1\<lparr>chunk_counter := chunk_counter h1 + 1\<rparr>, [])
           | _ \<Rightarrow> Inr (h, []))
      | ThreadMessageCompleted content \<Rightarrow>
          (case content of
             [] \<Rightarrow> Inl (Thrown (Some ''Cannot read properties of undefined (reading 'type')'')
                      ''TypeError: Cannot read properties of undefined (reading 'type')'')
           | b # _ \<Rightarrow>
               Inr (h, [PartialUpdateMessage ident
                          (case b of TextContentBlock v \<Rightarrow> v | OtherContentBlock \<Rightarrow> msg_text (message h))
                          None,
                        SendEvent (Ai_indicator_clear cid ident)]))
      | ThreadRunStepCreated sd \<Rightarrow>
          (if sd = Message_creation
           then Inr (h, [SendEvent (Ai_indicator_update AI_STATE_CHECKING_SOURCES cid ident)])
           else Inr (h, []))
      | _ \<Rightarrow> Inr (h, []))"

subsection \<open>handleError\<close>

definition handleError :: "handler \<Rightarrow> thrown \<Rightarrow> handler \<times> effect list" where
  "handleError h error =
     (if is_done h then (h, [])
      else
        let (h', d) = dispose h
        in (h',
            [SendEvent (Ai_indicator_update AI_STATE_ERROR (msg_cid (message h)) (msg_id (message h))),
             PartialUpdateMessage (msg_id (message h))
               (case err_message error of
                  Some m \<Rightarrow> m
                | None \<Rightarrow> ''An error occurred while generating the message.'')
               (Some (err_toString error))] @ d))"

subsection \<open>performWebSearch\<close>

text \<open>
  The query is \<^verbatim>\<open>args.query\<close> of the parsed arguments: a JSON value, or undefined. The
  body of the request leaves an undefined query out, as its serialisation does.
\<close>

definition search_body :: "json option \<Rightarrow> json" where
  "search_body query =
     JObj ((case query of None \<Rightarrow> [] | Some q \<Rightarrow> [(''query'', q)]) @
           [(''search_depth'', JStr ''advanced''),
            (''max_results'', JNum 5),
            (''include_answer'', JBool True),
            (''include_raw_content'', JBool False)])"

text \<open>
  The \<^verbatim>\<open>try\<close> block: the request, and on a response the log line and the serialised
  data. A rejection leaves the block with the value thrown, for the \<^verbatim>\<open>catch\<close> clause; so
  does a log line that cannot print the query.
\<close>

definition search_try :: "env \<Rightarrow> json option \<Rightarrow> string \<Rightarrow> (request_error + json_text) \<times> effect list" where
  "search_try ev query key =
     (case axios_post ev (search_body query) key of
        Inr data \<Rightarrow>
          if printable_query query
          then (Inr (JSON_stringify data),
                [AxiosPost (search_body query) key,
                 ConsoleLog [Txt ''Tavily Search Successful for query: '', Val query]])
          else (Inl (OtherThrown cannot_convert), [AxiosPost (search_body query) key])
      | Inl error \<Rightarrow> (Inl error, [AxiosPost (search_body query) key]))"

text \<open>
  The \<^verbatim>\<open>catch\<close> clause: \<^verbatim>\<open>error.response?.data || error.message\<close> for an axios error, with
  the status printed into the error text (\<^verbatim>\<open>undefined\<close> without a response). Its log lines
  print the query, the details and the thrown value in template literals: where one of
  them cannot be printed the clause throws, and nothing is returned.
\<close>

definition search_catch :: "json option \<Rightarrow> request_error \<Rightarrow> (thrown + json_text) \<times> effect list" where
  "search_catch query error =
     (case error of
        AxiosError response msg \<Rightarrow>
          let details = (case response of
                           Some (status, data) \<Rightarrow> if truthy data then data else JStr msg
                         | None \<Rightarrow> JStr msg);
              status_text = (case response of
                               Some (status, data) \<Rightarrow> decimal status
                             | None \<Rightarrow> ''undefined'')
          in if \<not> printable_query query then (Inl cannot_convert, [])
             else if \<not> printable details
             then (Inl cannot_convert,
                   [ConsoleLog [Txt ''Tavily Search Failed for query: '', Val query]])
             else (Inr (JSON_stringify
                         (JObj [(''error'', JStr (''Failed to perform web search with status '' @ status_text)),
                                (''details'', details)])),
                   [ConsoleLog [Txt ''Tavily Search Failed for query: '', Val query],
                    ConsoleError [Txt ''Axios error: '', Val (Some details)]])
      | OtherThrown t \<Rightarrow>
          if \<not> printable_query query then (Inl cannot_convert, [])
          else (Inr (JSON_stringify
                      (JObj [(''error'', JStr ''An unexpected error occurred during web search.'')])),
                [ConsoleError [Txt ''An unexpected error occurred during web search for query: '',
                               Val query, Txt '' \<newline> error: '', Exn t]])
      | OtherUnprintable \<Rightarrow> (Inl cannot_convert, []))"

text \<open>
  \<^verbatim>\<open>!TAVILY_API_KEY\<close> holds for an unset variable and for the empty string. The first log
  line stands before the \<^verbatim>\<open>try\<close> block: a query it cannot print makes the function throw
  there. The result is what the function returns (\<open>Inr\<close>) or throws (\<open>Inl\<close>).
\<close>

definition key_missing :: json where
  "key_missing = JObj [(''error'', JStr ''Web Search is not available. The API Key is not configured.'')]"

definition performWebSearch :: "env \<Rightarrow> json option \<Rightarrow> (thrown + json_text) \<times> effect list" where
  "performWebSearch ev query =
     (case TAVILY_API_KEY ev of
        None \<Rightarrow> (Inr (JSON_stringify key_missing), [])
      | Some key \<Rightarrow>
          if key = [] then (Inr (JSON_stringify key_missing), [])
          else if \<not> printable_query query then (Inl cannot_convert, [])
          else
            let log = ConsoleLog [Txt ''Performing a web search for '', Val query]
            in case search_try ev query key of
                 (Inr result, effs) \<Rightarrow> (Inr result, log # effs)
               | (Inl error, effs) \<Rightarrow>
                   (case search_catch query error of
                      (result, effs') \<Rightarrow> (result, log # effs @ effs')))"

subsection \<open>run\<close>

text \<open>
  The \<^verbatim>\<open>try\<close> block around one tool call: parse the arguments, read the query, search.
\<close>

definition tool_try :: "env \<Rightarrow> tool_call \<Rightarrow> (thrown + json_text) \<times> effect list" where
  "tool_try ev toolCall =
     (case JSON_parse (fn_arguments toolCall) of
        Inl error \<Rightarrow> (Inl error, [])
      | Inr args \<Rightarrow>
          (case get_query args of
             Inl error \<Rightarrow> (Inl error, [])
           | Inr query \<Rightarrow> performWebSearch ev query))"

text \<open>
  The loop over the tool calls of a requires-action event, with the outputs pushed so far.
\<close>

fun tool_loop :: "env \<Rightarrow> tool_call list \<Rightarrow> tool_output list \<Rightarrow> tool_output list \<times> effect list" where
  "tool_loop ev [] toolOutputs = (toolOutputs, [])"
| "tool_loop ev (toolCall # rest) toolOutputs =
     (if fn_name toolCall = ''web_search''
      then
        (case tool_try ev toolCall of
           (Inr searchResult, effs) \<Rightarrow>
             (case tool_loop ev rest
                     (toolOutputs @ [\<lparr>tool_call_id = tc_id toolCall, output_str = searchResult\<rparr>]) of
                (outs, effs') \<Rightarrow> (outs, effs @ effs'))
         | (Inl error, effs) \<Rightarrow>
             (case tool_loop ev rest
                     (toolOutputs @ [\<lparr>tool_call_id = tc_id toolCall,
                                      output_str = JSON_stringify (JObj [(''error'', JStr ''Failed to call tool'')])\<rparr>]) of
                (outs, effs') \<Rightarrow>
                  (outs,
                   effs @
                   [ConsoleError [Txt ''Error parsing the tool arguments or performing the web search. Error: '',
                                  Exn error]] @ effs')))
      else tool_loop ev rest toolOutputs)"

text \<open>
  The local variables of \<^verbatim>\<open>run\<close>. \<open>currentStream\<close> is the stream the variable refers to, by
  the items it has left. \<open>reassigned\<close> is no variable of the source: it records that the
  body of the inner loop has assigned a new stream to \<^verbatim>\<open>currentStream\<close> while the
  iterator of the old one is still being read, so that the items the iterator leaves are
  not those of the stream the variable now refers to.
\<close>

record locals =
  isCompleted :: bool
  toolOutputs :: "tool_output list"
  currentStream :: "stream_item list"
  reassigned :: bool

datatype control = Continue | Break

text \<open>
  The statements of the loop body after the three branches that break: the test of
  \<^verbatim>\<open>isCompleted\<close>, and the submission of pending tool outputs.
\<close>

definition submit_pending :: "env \<Rightarrow> handler \<Rightarrow> locals \<Rightarrow> locals \<times> effect list \<times> control" where
  "submit_pending ev h loc =
     (if isCompleted loc then (loc, [], Break)
      else if length (toolOutputs loc) > 0
      then (loc\<lparr>currentStream :=
                   submitToolOutputsStream ev (run_id h) (openAiThread_id h) (toolOutputs loc),
                 reassigned := True,
                 toolOutputs := []\<rparr>,
            [SubmitToolOutputsStream (run_id h) (openAiThread_id h) (toolOutputs loc)],
            Continue)
      else (loc, [], Continue))"

text \<open>
  The body of the inner loop for one event. \<^verbatim>\<open>handleStreamEvent\<close> is called and not
  awaited: what it throws rejects a promise nobody handles, and the body goes on.
\<close>

definition loop_body :: "env \<Rightarrow> handler \<Rightarrow> locals \<Rightarrow> int \<Rightarrow> event \<Rightarrow> handler \<times> locals \<times> effect list \<times> control" where
  "loop_body ev h loc now e =
     (let (h1, effs1) = (case handleStreamEvent h now e of
                           Inl error \<Rightarrow> (h, [UnhandledRejection error])
                         | Inr r \<Rightarrow> r);
          cid = msg_cid (message h1);
          message_id = msg_id (message h1);
          other = (case submit_pending ev h1 loc of
                     (loc', effs, c) \<Rightarrow> (h1, loc', effs1 @ effs, c))
      in case e of
           ThreadRunRequiresAction r \<Rightarrow>
             (case required_action r of
                Some toolCalls \<Rightarrow>
                  (case tool_loop ev toolCalls [] of
                     (outs, effs) \<Rightarrow>
                       (h1\<lparr>run_id := run_ident r\<rparr>,
                        loc\<lparr>toolOutputs := outs\<rparr>,
                        effs1 @
                        [SendEvent (Ai_indicator_update AI_STATE_EXTERNAL_SOURCES cid message_id)] @
                        effs,
                        Break))
              | None \<Rightarrow> other)
         | ThreadRunCompleted r \<Rightarrow> (h1, loc\<lparr>isCompleted := True\<rparr>, effs1, Break)
         | ThreadRunFailed r \<Rightarrow>
             (case handleError h1
                     (new_Error (case last_error r of Some m \<Rightarrow> m | None \<Rightarrow> ''Run Failed'')) of
                (h2, effs) \<Rightarrow> (h2, loc\<lparr>isCompleted := True\<rparr>, effs1 @ effs, Break))
         | _ \<Rightarrow> other)"

text \<open>
  How the inner loop is left: the stream ended, the body broke out of it (with the items
  the iterator had not read), or the iterator rejected.
\<close>

datatype loop_exit = Ended | Broke "stream_item list" | Threw thrown

fun for_await :: "env \<Rightarrow> handler \<Rightarrow> locals \<Rightarrow> stream_item list \<Rightarrow> handler \<times> locals \<times> effect list \<times> loop_exit" where
  "for_await ev h loc [] = (h, loc, [], Ended)"
| "for_await ev h loc (Reject error # rest) = (h, loc, [], Threw error)"
| "for_await ev h loc (Emit now e # rest) =
     (case loop_body ev h loc now e of
        (h', loc', effs, Break) \<Rightarrow> (h', loc', effs, Broke rest)
      | (h', loc', effs, Continue) \<Rightarrow>
          (case for_await ev h' loc' rest of
             (h'', loc'', effs', x) \<Rightarrow> (h'', loc'', effs @ effs', x)))"

text \<open>
  The stream the next \<^verbatim>\<open>for await\<close> iterates: the new stream when the body has assigned
  one; otherwise the same stream again, which has nothing left when it ended, and what its
  \<^verbatim>\<open>return()\<close> left when the body broke out of it.
\<close>

definition next_stream :: "env \<Rightarrow> locals \<Rightarrow> loop_exit \<Rightarrow> locals" where
  "next_stream ev loc x =
     (if reassigned loc then loc\<lparr>reassigned := False\<rparr>
      else case x of
             Broke rest \<Rightarrow> loc\<lparr>currentStream := iterator_return ev rest\<rparr>
           | _ \<Rightarrow> loc\<lparr>currentStream := []\<rparr>)"

text \<open>
  The outer loop, \<^verbatim>\<open>while (!isCompleted)\<close>, with fuel: one unit for each test of the
  condition. \<open>None\<close> is a loop that has not ended within the fuel. The result is the
  handler, the trace, and the value thrown out of the loop, if any.
\<close>

fun while_loop :: "nat \<Rightarrow> env \<Rightarrow> handler \<Rightarrow> locals \<Rightarrow> (handler \<times> effect list \<times> thrown option) option" where
  "while_loop 0 ev h loc = None"
| "while_loop (Suc n) ev h loc =
     (if isCompleted loc then Some (h, [], None)
      else
        case for_await ev h loc (currentStream loc) of
          (h', loc', effs, Threw error) \<Rightarrow> Some (h', effs, Some error)
        | (h', loc', effs, x) \<Rightarrow>
            (case while_loop n ev h' (next_stream ev loc' x) of
               None \<Rightarrow> None
             | Some (h'', effs', t) \<Rightarrow> Some (h'', effs @ effs', t)))"

text \<open>
  The local variables as \<^verbatim>\<open>run\<close> declares them, for the stream the handler was
  constructed with.
\<close>

definition initial_locals :: "stream_item list \<Rightarrow> locals" where
  "initial_locals assistantStream =
     \<lparr>isCompleted = False, toolOutputs = [], currentStream = assistantStream, reassigned = False\<rparr>"

text \<open>
  \<^verbatim>\<open>run\<close>: the loop inside \<^verbatim>\<open>try\<close>, the error path in \<^verbatim>\<open>catch\<close>, \<^verbatim>\<open>dispose\<close> in
  \<^verbatim>\<open>finally\<close>. \<open>None\<close> is a run that has not returned within the fuel.
\<close>

definition run :: "nat \<Rightarrow> env \<Rightarrow> handler \<Rightarrow> stream_item list \<Rightarrow> (handler \<times> effect list) option" where
  "run fuel ev h assistantStream =
     (case while_loop fuel ev h (initial_locals assistantStream) of
        None \<Rightarrow> None
      | Some (h1, effs, None) \<Rightarrow>
          (case dispose h1 of (h2, d) \<Rightarrow> Some (h2, effs @ d))
      | Some (h1, effs, Some error) \<Rightarrow>
          (case handleError h1 error of
             (h2, effs') \<Rightarrow>
               (case dispose h2 of
                  (h3, d) \<Rightarrow>
                    Some (h3,
                          effs @ [ConsoleError [Txt ''An error occurred during the run:'', Exn error]] @
                          effs' @ d))))"

section \<open>Observations and scenarios\<close>

text \<open>
  A text delta as the API sends it: one text block with a value.
\<close>

definition text_delta :: "string \<Rightarrow> event" where
  "text_delta v = ThreadMessageDelta (Some [TextDeltaBlock (Some (Some v))])"

text \<open>
  The calls of \<^verbatim>\<open>handleStreamEvent\<close> for a sequence of events, each with its clock reading,
  in arrival order: the log keeps, for every event, the effects its handling issued.
\<close>

fun deliver :: "handler \<Rightarrow> (int \<times> event) list \<Rightarrow> (int \<times> event \<times> effect list) list" where
  "deliver h [] = []"
| "deliver h ((now, e) # rest) =
     (case handleStreamEvent h now e of
        Inl t \<Rightarrow> (now, e, [UnhandledRejection t]) # deliver h rest
      | Inr (h', effs) \<Rightarrow> (now, e, effs) # deliver h' rest)"

fun is_push :: "effect \<Rightarrow> bool" where
  "is_push (PartialUpdateMessage i t m) = True"
| "is_push _ = False"

fun is_delta :: "event \<Rightarrow> bool" where
  "is_delta (ThreadMessageDelta c) = True"
| "is_delta _ = False"

fun is_submit :: "effect \<Rightarrow> bool" where
  "is_submit (SubmitToolOutputsStream i t outs) = True"
| "is_submit _ = False"

text \<open>The clock readings of the pushes that delta events made: the non-final pushes.\<close>

definition delta_push_times :: "(int \<times> event \<times> effect list) list \<Rightarrow> int list" where
  "delta_push_times log =
     map fst (filter (\<lambda>(now, e, effs). is_delta e \<and> list_ex is_push effs) log)"

text \<open>\<^verbatim>\<open>dispose\<close> called \<open>n\<close> times in a row.\<close>

fun dispose_calls :: "nat \<Rightarrow> handler \<Rightarrow> handler \<times> effect list" where
  "dispose_calls 0 h = (h, [])"
| "dispose_calls (Suc n) h =
     (case dispose h of
        (h', d) \<Rightarrow> (case dispose_calls n h' of (h'', d') \<Rightarrow> (h'', d @ d')))"

text \<open>
  The inputs of the scenarios: the reply message as the agent creates it (empty text), a
  handler constructed for it, a run, tool calls, and an environment with a search
  credential whose requests succeed.
\<close>

definition reply :: message_response where
  "reply = \<lparr>msg_cid = ''messaging:c1'', msg_id = ''m1'', msg_text = []\<rparr>"

definition fresh :: handler where
  "fresh = fst (constructor ''thread_1'' reply)"

definition run_1 :: run_data where
  "run_1 = \<lparr>run_ident = ''run_1'', required_action = None, last_error = None\<rparr>"

definition weather_call :: tool_call where
  "weather_call =
     \<lparr>tc_id = ''call_1'', fn_name = ''web_search'',
      fn_arguments = Encoded (JObj [(''query'', JStr ''weather'')])\<rparr>"

definition other_call :: tool_call where
  "other_call = \<lparr>tc_id = ''call_2'', fn_name = ''get_time'', fn_arguments = Encoded (JObj [])\<rparr>"

definition broken_call :: tool_call where
  "broken_call =
     \<lparr>tc_id = ''call_3'', fn_name = ''web_search'', fn_arguments = Malformed ''{query:''\<rparr>"

definition unprintable_call :: tool_call where
  "unprintable_call =
     \<lparr>tc_id = ''call_4'', fn_name = ''web_search'',
      fn_arguments = Encoded (JObj [(''query'', JObj [(''toString'', JNum 1)])])\<rparr>"

definition search_env :: env where
  "search_env =
     \<lparr>TAVILY_API_KEY = Some ''tvly-key'',
      axios_post = (\<lambda>body key. Inr (JObj [(''answer'', JStr ''sunny'')])),
      runs_cancel = (\<lambda>r t. None),
      submitToolOutputsStream = (\<lambda>r t outs. [Emit 0 (ThreadRunCompleted run_1)]),
      iterator_return = (\<lambda>rest. rest)\<rparr>"

text \<open>
  Scenario B: the run is created and requires one \<^verbatim>\<open>web_search\<close> call, and the stream ends
  there, the run waiting for the outputs.
\<close>

definition scenario_B :: "stream_item list" where
  "scenario_B =
     [Emit 0 (ThreadRunCreated run_1),
      Emit 5 (ThreadRunRequiresAction (run_1\<lparr>required_action := Some [weather_call]\<rparr>))]"

text \<open>The handler after a stop-generating signal for its message has disposed it.\<close>

definition stopped :: handler where
  "stopped = fst (handleStopGenerating search_env fresh (Some ''m1''))"

section \<open>Disposal\<close>

lemma dispose_done: "is_done h \<Longrightarrow> dispose h = (h, [])"
  by (simp add: dispose_def)

lemma dispose_open:
  "\<not> is_done h \<Longrightarrow> dispose h = (h\<lparr>is_done := True\<rparr>, [ChatClientOff, OnDispose])"
  by (simp add: dispose_def)

lemma dispose_calls_done: "is_done h \<Longrightarrow> dispose_calls n h = (h, [])"
  by (induction n) (simp_all add: dispose_done)

lemma fresh_open: "\<not> is_done fresh"
  by (simp add: fresh_def constructor_def)

text \<open>
  C9. \<^verbatim>\<open>dispose\<close> is idempotent. Called any number of times (at least once) on a handler
  that is not disposed, it removes the stop-signal listener once and calls the disposal
  callback once, in all the calls together; on a disposed handler every call does nothing.
\<close>

theorem dispose_idempotent:
  "(\<not> is_done h \<and> 0 < n \<longrightarrow>
      dispose_calls n h = (h\<lparr>is_done := True\<rparr>, [ChatClientOff, OnDispose])) \<and>
   (is_done h \<longrightarrow> dispose_calls n h = (h, []))"
proof (intro conjI impI)
  assume a: "\<not> is_done h \<and> 0 < n"
  then obtain m where n: "n = Suc m" by (cases n) auto
  have "dispose_calls m (h\<lparr>is_done := True\<rparr>) = (h\<lparr>is_done := True\<rparr>, [])"
    by (rule dispose_calls_done) simp
  with a n show "dispose_calls n h = (h\<lparr>is_done := True\<rparr>, [ChatClientOff, OnDispose])"
    by (simp add: dispose_open)
next
  assume "is_done h"
  then show "dispose_calls n h = (h, [])" by (rule dispose_calls_done)
qed

theorem dispose_idempotent_witness:
  "\<not> is_done fresh \<and> (0::nat) < 2 \<and>
   dispose_calls 2 fresh = (fresh\<lparr>is_done := True\<rparr>, [ChatClientOff, OnDispose]) \<and>
   count_list (snd (dispose_calls 2 fresh)) OnDispose = 1 \<and>
   count_list (snd (dispose_calls 2 fresh)) ChatClientOff = 1 \<and>
   is_done (fresh\<lparr>is_done := True\<rparr>) \<and>
   dispose_calls 3 (fresh\<lparr>is_done := True\<rparr>) = (fresh\<lparr>is_done := True\<rparr>, [])"
proof -
  have "dispose_calls 2 fresh = (fresh\<lparr>is_done := True\<rparr>, [ChatClientOff, OnDispose])"
    using dispose_idempotent [of fresh 2] fresh_open by simp
  moreover have "dispose_calls 3 (fresh\<lparr>is_done := True\<rparr>) = (fresh\<lparr>is_done := True\<rparr>, [])"
    using dispose_idempotent [of "fresh\<lparr>is_done := True\<rparr>" 3] by simp
  ultimately show ?thesis using fresh_open by simp
qed

section \<open>The stop-generating signal\<close>

text \<open>
  C8. A stop-generating signal does nothing (the handler is unchanged, no call is made)
  when the handler is disposed or the signal's message identifier is not that of the reply
  message. Otherwise the handler asks for the cancel of the run, logs a rejected cancel and
  goes on, sends the clear signal for its message, and disposes.
\<close>

theorem stop_generating:
  "(is_done h \<or> mid \<noteq> Some (msg_id (message h)) \<longrightarrow> handleStopGenerating ev h mid = (h, [])) \<and>
   (\<not> is_done h \<and> mid = Some (msg_id (message h)) \<longrightarrow>
      handleStopGenerating ev h mid =
        (h\<lparr>is_done := True\<rparr>,
         RunsCancel (run_id h) (openAiThread_id h) #
         (case runs_cancel ev (run_id h) (openAiThread_id h) of
            None \<Rightarrow> []
          | Some error \<Rightarrow> [ConsoleError [Txt ''Error cancelling the run, '', Exn error]]) @
         [SendEvent (Ai_indicator_clear (msg_cid (message h)) (msg_id (message h))),
          ChatClientOff, OnDispose]))"
  by (simp add: handleStopGenerating_def dispose_def Let_def)

theorem stop_generating_witness:
  "Some ''m2'' \<noteq> Some (msg_id (message fresh)) \<and>
   handleStopGenerating search_env fresh (Some ''m2'') = (fresh, []) \<and>
   \<not> is_done fresh \<and> Some ''m1'' = Some (msg_id (message fresh)) \<and>
   handleStopGenerating (search_env\<lparr>runs_cancel := (\<lambda>r t. Some (new_Error ''gone''))\<rparr>) fresh (Some ''m1'') =
     (fresh\<lparr>is_done := True\<rparr>,
      [RunsCancel [] ''thread_1'',
       ConsoleError [Txt ''Error cancelling the run, '', Exn (Thrown (Some ''gone'') ''Error: gone'')],
       SendEvent (Ai_indicator_clear ''messaging:c1'' ''m1''),
       ChatClientOff, OnDispose])"
proof -
  have m: "msg_id (message fresh) = ''m1''" "msg_cid (message fresh) = ''messaging:c1''"
    "run_id fresh = []" "openAiThread_id fresh = ''thread_1''"
    by (simp_all add: fresh_def constructor_def reply_def)
  have "handleStopGenerating search_env fresh (Some ''m2'') = (fresh, [])"
    using stop_generating [of fresh "Some ''m2''" search_env] m by simp
  moreover have "handleStopGenerating (search_env\<lparr>runs_cancel := (\<lambda>r t. Some (new_Error ''gone''))\<rparr>)
        fresh (Some ''m1'') =
     (fresh\<lparr>is_done := True\<rparr>,
      [RunsCancel [] ''thread_1'',
       ConsoleError [Txt ''Error cancelling the run, '', Exn (Thrown (Some ''gone'') ''Error: gone'')],
       SendEvent (Ai_indicator_clear ''messaging:c1'' ''m1''),
       ChatClientOff, OnDispose])"
    using stop_generating [of fresh "Some ''m1''"
        "search_env\<lparr>runs_cancel := (\<lambda>r t. Some (new_Error ''gone''))\<rparr>"] m fresh_open
    by (simp add: new_Error_def)
  ultimately show ?thesis using m fresh_open by simp
qed

section \<open>The completed message\<close>

text \<open>
  C10. Handling a message-completed event reads the first block of the content without a
  test. It throws exactly when the content is empty; with a non-empty content it does not
  throw, and makes the final push and sends the clear signal.
\<close>

theorem completed_content:
  "((\<exists>t. handleStreamEvent h now (ThreadMessageCompleted content) = Inl t) \<longleftrightarrow> content = []) \<and>
   (content \<noteq> [] \<longrightarrow>
      handleStreamEvent h now (ThreadMessageCompleted content) =
        Inr (h, [PartialUpdateMessage (msg_id (message h))
                   (case hd content of
                      TextContentBlock v \<Rightarrow> v
                    | OtherContentBlock \<Rightarrow> msg_text (message h))
                   None,
                 SendEvent (Ai_indicator_clear (msg_cid (message h)) (msg_id (message h)))]))"
  by (cases content) (simp_all add: handleStreamEvent_def Let_def)

theorem completed_content_witness:
  "[TextContentBlock ''Hello world!''] \<noteq> [] \<and>
   handleStreamEvent fresh 30 (ThreadMessageCompleted [TextContentBlock ''Hello world!'']) =
     Inr (fresh, [PartialUpdateMessage ''m1'' ''Hello world!'' None,
                  SendEvent (Ai_indicator_clear ''messaging:c1'' ''m1'')]) \<and>
   (\<exists>t. handleStreamEvent fresh 30 (ThreadMessageCompleted []) = Inl t)"
proof -
  have m: "msg_id (message fresh) = ''m1''" "msg_cid (message fresh) = ''messaging:c1''"
    by (simp_all add: fresh_def constructor_def reply_def)
  have "handleStreamEvent fresh 30 (ThreadMessageCompleted [TextContentBlock ''Hello world!'']) =
     Inr (fresh, [PartialUpdateMessage ''m1'' ''Hello world!'' None,
                  SendEvent (Ai_indicator_clear ''messaging:c1'' ''m1'')])"
    using completed_content [of fresh 30 "[TextContentBlock ''Hello world!'']"] m by simp
  moreover have "\<exists>t. handleStreamEvent fresh 30 (ThreadMessageCompleted []) = Inl t"
    using completed_content [of fresh 30 "[]"] by simp
  ultimately show ?thesis by simp
qed

section \<open>The web search\<close>


lemma performWebSearch_no_key:
  "TAVILY_API_KEY ev = None \<or> TAVILY_API_KEY ev = Some [] \<Longrightarrow>
   performWebSearch ev query = (Inr (JSON_stringify key_missing), [])"
  by (auto simp: performWebSearch_def)

lemma performWebSearch_unprintable:
  "TAVILY_API_KEY ev = Some key \<Longrightarrow> key \<noteq> [] \<Longrightarrow> \<not> printable_query query \<Longrightarrow>
   performWebSearch ev query = (Inl cannot_convert, [])"
  by (simp add: performWebSearch_def)

lemma performWebSearch_key:
  "TAVILY_API_KEY ev = Some key \<Longrightarrow> key \<noteq> [] \<Longrightarrow> printable_query query \<Longrightarrow>
   performWebSearch ev query =
     (case axios_post ev (search_body query) key of
        Inr data \<Rightarrow>
          (Inr (JSON_stringify data),
           [ConsoleLog [Txt ''Performing a web search for '', Val query],
            AxiosPost (search_body query) key,
            ConsoleLog [Txt ''Tavily Search Successful for query: '', Val query]])
      | Inl error \<Rightarrow>
          (fst (search_catch query error),
           [ConsoleLog [Txt ''Performing a web search for '', Val query],
            AxiosPost (search_body query) key] @ snd (search_catch query error)))"
  by (simp add: performWebSearch_def search_try_def Let_def split: sum.splits prod.splits)





text \<open>
  When the function throws, for a query that is a string: exactly when the request was
  rejected and the catch clause cannot print what it logs.
\<close>

lemma performWebSearch_throws_iff:
  "(\<exists>t. fst (performWebSearch ev (Some (JStr q))) = Inl t) \<longleftrightarrow>
   (\<exists>key. TAVILY_API_KEY ev = Some key \<and> key \<noteq> [] \<and>
      ((\<exists>status data msg.
          axios_post ev (search_body (Some (JStr q))) key = Inl (AxiosError (Some (status, data)) msg) \<and>
          truthy data \<and> \<not> printable data) \<or>
       axios_post ev (search_body (Some (JStr q))) key = Inl OtherUnprintable))"
proof (cases "TAVILY_API_KEY ev = None \<or> TAVILY_API_KEY ev = Some []")
  case True
  then show ?thesis by (auto simp: performWebSearch_no_key)
next
  case False
  then obtain key where k: "TAVILY_API_KEY ev = Some key" "key \<noteq> []" by auto
  have p: "printable_query (Some (JStr q))" by (simp add: printable_query_def)
  show ?thesis
  proof (cases "axios_post ev (search_body (Some (JStr q))) key")
    case (Inr data)
    with k p show ?thesis by (simp add: performWebSearch_key)
  next
    case (Inl error)
    show ?thesis
    proof (cases error)
      case (AxiosError response msg)
      with Inl k p show ?thesis
        by (cases response)
           (auto simp: performWebSearch_key search_catch_def Let_def split: if_splits)
    next
      case (OtherThrown t)
      with Inl k p show ?thesis by (simp add: performWebSearch_key search_catch_def)
    next
      case OtherUnprintable
      with Inl k p show ?thesis by (simp add: performWebSearch_key search_catch_def)
    qed
  qed
qed




section \<open>Text deltas\<close>

lemma submit_pending_open:
  "\<not> isCompleted loc \<Longrightarrow> submit_pending ev h loc = (loc', effs, c) \<Longrightarrow>
   c = Continue \<and> \<not> isCompleted loc'"
  by (auto simp: submit_pending_def split: if_splits)

lemma handle_text_delta:
  "\<exists>h' effs. handleStreamEvent h now (text_delta v) = Inr (h', effs) \<and>
     msg_text (message h') = msg_text (message h) @ v"
  by (simp add: handleStreamEvent_def text_delta_def first_delta_def Let_def)

lemma loop_body_text_delta:
  assumes "\<not> isCompleted loc" and "loop_body ev h loc now (text_delta v) = (h', loc', effs, c)"
  shows "c = Continue \<and> \<not> isCompleted loc' \<and> msg_text (message h') = msg_text (message h) @ v"
proof -
  obtain h1 e1 where h1: "handleStreamEvent h now (text_delta v) = Inr (h1, e1)"
    and t: "msg_text (message h1) = msg_text (message h) @ v"
    using handle_text_delta by blast
  obtain l2 e2 c2 where sp: "submit_pending ev h1 loc = (l2, e2, c2)"
    by (cases "submit_pending ev h1 loc") auto
  from assms(2) h1 sp have "h' = h1" "loc' = l2" "c = c2"
    by (simp_all add: loop_body_def text_delta_def Let_def)
  with submit_pending_open [OF assms(1) sp] t show ?thesis by simp
qed

lemma for_await_text_deltas:
  "\<not> isCompleted loc \<Longrightarrow>
   for_await ev h loc (map (\<lambda>(now, v). Emit now (text_delta v)) xs) = (h', loc', effs, x) \<Longrightarrow>
   msg_text (message h') = msg_text (message h) @ concat (map snd xs) \<and> x = Ended"
proof (induction xs arbitrary: h loc effs)
  case Nil
  then show ?case by simp
next
  case (Cons p xs)
  obtain now v where p: "p = (now, v)" by (cases p)
  obtain h1 l1 e1 c1 where lb: "loop_body ev h loc now (text_delta v) = (h1, l1, e1, c1)"
    by (cases "loop_body ev h loc now (text_delta v)") auto
  from loop_body_text_delta [OF Cons.prems(1) lb]
  have c: "c1 = Continue" and o: "\<not> isCompleted l1"
    and t: "msg_text (message h1) = msg_text (message h) @ v" by simp_all
  obtain e2 where fa:
    "for_await ev h1 l1 (map (\<lambda>(now, v). Emit now (text_delta v)) xs) = (h', loc', e2, x)"
    using Cons.prems(2) p lb c by (auto split: prod.splits)
  from Cons.IH [OF o fa] t p show ?case by simp
qed

text \<open>
  C4. The inner loop, entered as \<^verbatim>\<open>run\<close> enters it (not completed), reads any sequence of
  text deltas to its end, whatever the clock readings, and the text of the reply message is
  then the text it had followed by all the delta values in arrival order: the values
  alone, when the message started empty. The push of a message-completed event with
  content sets the value of the first block when that is a text block, and the
  accumulated text otherwise. (C10 is about a content with no block.)
\<close>

theorem accumulated_text:
  "(\<not> isCompleted loc \<longrightarrow>
      msg_text (message (fst (for_await ev h loc (map (\<lambda>(now, v). Emit now (text_delta v)) xs)))) =
        msg_text (message h) @ concat (map snd xs) \<and>
      snd (snd (snd (for_await ev h loc (map (\<lambda>(now, v). Emit now (text_delta v)) xs)))) = Ended) \<and>
   handleStreamEvent h now (ThreadMessageCompleted (b # bs)) =
     Inr (h, [PartialUpdateMessage (msg_id (message h))
                (case b of
                   TextContentBlock v \<Rightarrow> v
                 | OtherContentBlock \<Rightarrow> msg_text (message h))
                None,
              SendEvent (Ai_indicator_clear (msg_cid (message h)) (msg_id (message h)))])"
proof (intro conjI impI)
  assume o: "\<not> isCompleted loc"
  obtain h' loc' effs x where
    fa: "for_await ev h loc (map (\<lambda>(now, v). Emit now (text_delta v)) xs) = (h', loc', effs, x)"
    by (cases "for_await ev h loc (map (\<lambda>(now, v). Emit now (text_delta v)) xs)") auto
  from for_await_text_deltas [OF o fa] fa
  show "msg_text (message (fst (for_await ev h loc (map (\<lambda>(now, v). Emit now (text_delta v)) xs)))) =
        msg_text (message h) @ concat (map snd xs)"
    and "snd (snd (snd (for_await ev h loc (map (\<lambda>(now, v). Emit now (text_delta v)) xs)))) = Ended"
    by simp_all
next
  show "handleStreamEvent h now (ThreadMessageCompleted (b # bs)) =
     Inr (h, [PartialUpdateMessage (msg_id (message h))
                (case b of
                   TextContentBlock v \<Rightarrow> v
                 | OtherContentBlock \<Rightarrow> msg_text (message h))
                None,
              SendEvent (Ai_indicator_clear (msg_cid (message h)) (msg_id (message h)))])"
    by (simp add: handleStreamEvent_def Let_def)
qed

theorem accumulated_text_witness:
  "\<not> isCompleted (initial_locals []) \<and>
   msg_text (message (fst (for_await search_env fresh (initial_locals [])
      (map (\<lambda>(now, v). Emit now (text_delta v)) [(2000, ''Hello''), (2010, '' world''), (2020, ''!'')])))) =
     ''Hello world!'' \<and>
   handleStreamEvent (fresh\<lparr>message := reply\<lparr>msg_text := ''Hello world''\<rparr>\<rparr>) 2030
       (ThreadMessageCompleted [OtherContentBlock]) =
     Inr (fresh\<lparr>message := reply\<lparr>msg_text := ''Hello world''\<rparr>\<rparr>,
          [PartialUpdateMessage ''m1'' ''Hello world'' None,
           SendEvent (Ai_indicator_clear ''messaging:c1'' ''m1'')])"
proof -
  have o: "\<not> isCompleted (initial_locals [])" by (simp add: initial_locals_def)
  have m: "msg_text (message fresh) = []" by (simp add: fresh_def constructor_def reply_def)
  have "msg_text (message (fst (for_await search_env fresh (initial_locals [])
      (map (\<lambda>(now, v). Emit now (text_delta v)) [(2000, ''Hello''), (2010, '' world''), (2020, ''!'')])))) =
     ''Hello world!''"
    using accumulated_text [of "initial_locals []" search_env fresh
        "[(2000, ''Hello''), (2010, '' world''), (2020, ''!'')]"] o m
    by simp
  moreover have "handleStreamEvent (fresh\<lparr>message := reply\<lparr>msg_text := ''Hello world''\<rparr>\<rparr>) 2030
       (ThreadMessageCompleted [OtherContentBlock]) =
     Inr (fresh\<lparr>message := reply\<lparr>msg_text := ''Hello world''\<rparr>\<rparr>,
          [PartialUpdateMessage ''m1'' ''Hello world'' None,
           SendEvent (Ai_indicator_clear ''messaging:c1'' ''m1'')])"
    using accumulated_text [of "initial_locals []" search_env
        "fresh\<lparr>message := reply\<lparr>msg_text := ''Hello world''\<rparr>\<rparr>" "[]" 2030 OtherContentBlock "[]"]
    by (simp add: reply_def)
  ultimately show ?thesis using o by simp
qed

section \<open>The throttle\<close>

lemma handle_time:
  "handleStreamEvent h now e = Inr (h', effs) \<Longrightarrow>
   (if is_delta e \<and> list_ex is_push effs
    then now - last_update_time h > 1000 \<and> last_update_time h' = now
    else last_update_time h' = last_update_time h)"
  by (auto simp: handleStreamEvent_def Let_def
      split: event.splits option.splits delta_block.splits list.splits if_splits)

text \<open>
  Nothing but \<^verbatim>\<open>handleStreamEvent\<close> writes the time of the last push: the other methods
  and the rest of the loop body leave it as it is.
\<close>

lemma dispose_time: "last_update_time (fst (dispose h)) = last_update_time h"
  by (simp add: dispose_def)

lemma handleError_time: "last_update_time (fst (handleError h error)) = last_update_time h"
  by (simp add: handleError_def dispose_def)

lemma handleStopGenerating_time:
  "last_update_time (fst (handleStopGenerating ev h mid)) = last_update_time h"
  by (simp add: handleStopGenerating_def dispose_def Let_def)

lemma loop_body_time:
  "last_update_time (fst (loop_body ev h loc now e)) =
     (case handleStreamEvent h now e of
        Inl t \<Rightarrow> last_update_time h
      | Inr (h', effs) \<Rightarrow> last_update_time h')"
  by (cases "handleStreamEvent h now e")
     (auto simp: loop_body_def Let_def handleError_def dispose_def
        split: event.splits option.splits prod.splits)

lemma deliver_throttled:
  "sorted_wrt (\<lambda>a b. b - a > 1000) (delta_push_times (deliver h evs)) \<and>
   (\<forall>t \<in> set (delta_push_times (deliver h evs)). t - last_update_time h > 1000)"
proof (induction evs arbitrary: h)
  case Nil
  show ?case by (simp add: delta_push_times_def)
next
  case (Cons p evs)
  obtain now e where p: "p = (now, e)" by (cases p)
  show ?case
  proof (cases "handleStreamEvent h now e")
    case (Inl t)
    then have "delta_push_times (deliver h (p # evs)) = delta_push_times (deliver h evs)"
      using p by (simp add: delta_push_times_def)
    with Cons.IH [of h] show ?thesis by simp
  next
    case (Inr r)
    obtain h' effs where r: "r = (h', effs)" by (cases r)
    note ht = handle_time [OF Inr [unfolded r]]
    show ?thesis
    proof (cases "is_delta e \<and> list_ex is_push effs")
      case True
      then have d: "delta_push_times (deliver h (p # evs)) = now # delta_push_times (deliver h' evs)"
        using p Inr r by (simp add: delta_push_times_def)
      from ht True have a: "now - last_update_time h > 1000" and b: "last_update_time h' = now"
        by simp_all
      from Cons.IH [of h'] b
      have s: "sorted_wrt (\<lambda>a b. b - a > 1000) (delta_push_times (deliver h' evs))"
        and g: "\<forall>t \<in> set (delta_push_times (deliver h' evs)). t - now > 1000" by simp_all
      from g a have "\<forall>t \<in> set (delta_push_times (deliver h' evs)). t - last_update_time h > 1000"
        by force
      with d s g a show ?thesis by simp
    next
      case False
      then have d: "delta_push_times (deliver h (p # evs)) = delta_push_times (deliver h' evs)"
        using p Inr r by (auto simp add: delta_push_times_def)
      from ht False have "last_update_time h' = last_update_time h" by simp
      with Cons.IH [of h'] d show ?thesis by simp
    qed
  qed
qed

text \<open>
  C5. For every sequence of events handled in order, with any clock readings, any two
  pushes made by delta events are more than 1000 ms apart, the later after the earlier; a
  delta event pushes only when more than 1000 ms have passed since the last recorded push;
  and the push of a message-completed event with content is made whatever the clock and
  the time of the last push are.
\<close>

theorem throttle:
  "sorted_wrt (\<lambda>a b. b - a > 1000) (delta_push_times (deliver h evs)) \<and>
   (\<forall>h' effs. handleStreamEvent h now (ThreadMessageDelta c) = Inr (h', effs) \<and> list_ex is_push effs \<longrightarrow>
      now - last_update_time h > 1000 \<and> last_update_time h' = now) \<and>
   (\<exists>text. handleStreamEvent h now (ThreadMessageCompleted (b # bs)) =
      Inr (h, [PartialUpdateMessage (msg_id (message h)) text None,
               SendEvent (Ai_indicator_clear (msg_cid (message h)) (msg_id (message h)))]))"
proof (intro conjI allI impI)
  show "sorted_wrt (\<lambda>a b. b - a > 1000) (delta_push_times (deliver h evs))"
    using deliver_throttled by blast
next
  fix h' effs
  assume a: "handleStreamEvent h now (ThreadMessageDelta c) = Inr (h', effs) \<and> list_ex is_push effs"
  then have "handleStreamEvent h now (ThreadMessageDelta c) = Inr (h', effs)" by simp
  from handle_time [OF this] a
  show "now - last_update_time h > 1000" and "last_update_time h' = now" by simp_all
next
  show "\<exists>text. handleStreamEvent h now (ThreadMessageCompleted (b # bs)) =
      Inr (h, [PartialUpdateMessage (msg_id (message h)) text None,
               SendEvent (Ai_indicator_clear (msg_cid (message h)) (msg_id (message h)))])"
    by (simp add: handleStreamEvent_def Let_def)
qed

lemma deliver_example:
  "delta_push_times (deliver fresh
     [(2000, text_delta ''a''), (2500, text_delta ''b''), (3000, text_delta ''c''),
      (3001, text_delta ''d''), (3002, ThreadMessageCompleted [TextContentBlock ''abcd'']),
      (4500, text_delta ''e'')]) = [2000, 3001, 4500]"
  by (simp add: delta_push_times_def handleStreamEvent_def text_delta_def first_delta_def Let_def
      fresh_def constructor_def reply_def)

theorem throttle_witness:
  "delta_push_times (deliver fresh
     [(2000, text_delta ''a''), (2500, text_delta ''b''), (3000, text_delta ''c''),
      (3001, text_delta ''d''), (3002, ThreadMessageCompleted [TextContentBlock ''abcd'']),
      (4500, text_delta ''e'')]) = [2000, 3001, 4500] \<and>
   sorted_wrt (\<lambda>a b. b - a > 1000) [2000, 3001, 4500 :: int] \<and>
   handleStreamEvent fresh 2000 (text_delta ''a'') =
     Inr (fresh\<lparr>message := reply\<lparr>msg_text := ''a''\<rparr>, last_update_time := 2000, chunk_counter := 1\<rparr>,
          [PartialUpdateMessage ''m1'' ''a'' None]) \<and>
   2000 - last_update_time fresh > 1000"
proof -
  let ?evs = "[(2000, text_delta ''a''), (2500, text_delta ''b''), (3000, text_delta ''c''),
      (3001, text_delta ''d''), (3002, ThreadMessageCompleted [TextContentBlock ''abcd'']),
      (4500, text_delta ''e'')]"
  have h: "handleStreamEvent fresh 2000 (ThreadMessageDelta (Some [TextDeltaBlock (Some (Some ''a''))])) =
     Inr (fresh\<lparr>message := reply\<lparr>msg_text := ''a''\<rparr>, last_update_time := 2000, chunk_counter := 1\<rparr>,
          [PartialUpdateMessage ''m1'' ''a'' None])"
    by (simp add: handleStreamEvent_def first_delta_def Let_def fresh_def constructor_def reply_def)
  have "sorted_wrt (\<lambda>a b. b - a > 1000) (delta_push_times (deliver fresh ?evs))"
    using throttle [of fresh ?evs] by simp
  moreover have "2000 - last_update_time fresh > 1000"
    using throttle [of fresh "[]" 2000 "Some [TextDeltaBlock (Some (Some ''a''))]"] h by simp
  ultimately show ?thesis using deliver_example h by (simp add: text_delta_def)
qed

section \<open>The error path\<close>

lemma handleError_open:
  "\<not> is_done h \<Longrightarrow>
   handleError h error =
     (h\<lparr>is_done := True\<rparr>,
      [SendEvent (Ai_indicator_update AI_STATE_ERROR (msg_cid (message h)) (msg_id (message h))),
       PartialUpdateMessage (msg_id (message h))
         (case err_message error of
            Some m \<Rightarrow> m
          | None \<Rightarrow> ''An error occurred while generating the message.'')
         (Some (err_toString error)),
       ChatClientOff, OnDispose])"
  by (simp add: handleError_def dispose_def)

lemma handleError_done: "is_done h \<Longrightarrow> handleError h error = (h, [])"
  by (simp add: handleError_def)

text \<open>Items read to the end of a stream are read the same way when more items follow.\<close>

lemma for_await_append:
  "for_await ev h loc pre = (h1, loc1, e1, Ended) \<Longrightarrow>
   for_await ev h loc (pre @ items) =
     (case for_await ev h1 loc1 items of (h2, loc2, e2, x) \<Rightarrow> (h2, loc2, e1 @ e2, x))"
proof (induction pre arbitrary: h loc e1)
  case Nil
  then show ?case by (simp split: prod.splits)
next
  case (Cons i pre)
  show ?case
  proof (cases i)
    case (Reject t)
    with Cons.prems show ?thesis by simp
  next
    case (Emit now e)
    obtain ha la ea c where lb: "loop_body ev h loc now e = (ha, la, ea, c)"
      by (cases "loop_body ev h loc now e") auto
    show ?thesis
    proof (cases c)
      case Break
      with Cons.prems Emit lb show ?thesis by simp
    next
      case Continue
      obtain hb lb' eb xb where fa: "for_await ev ha la pre = (hb, lb', eb, xb)"
        by (cases "for_await ev ha la pre") auto
      from Cons.prems Emit lb Continue fa
      have eq: "hb = h1" "lb' = loc1" "e1 = ea @ eb" "xb = Ended" by simp_all
      from Cons.IH [OF fa [unfolded eq(1,2,4)]]
      show ?thesis using Emit lb Continue eq(3)
        by (simp split: prod.splits)
    qed
  qed
qed

lemma loop_body_failed:
  "loop_body ev h loc now (ThreadRunFailed r) =
     (fst (handleError h (new_Error (case last_error r of Some m \<Rightarrow> m | None \<Rightarrow> ''Run Failed''))),
      loc\<lparr>isCompleted := True\<rparr>,
      snd (handleError h (new_Error (case last_error r of Some m \<Rightarrow> m | None \<Rightarrow> ''Run Failed''))),
      Break)"
  by (simp add: loop_body_def handleStreamEvent_def Let_def split: prod.splits)

lemma run_failed:
  assumes pre: "for_await ev h (initial_locals (pre @ Emit now (ThreadRunFailed r) # rest)) pre =
      (h1, loc1, e1, Ended)"
    and nd: "\<not> is_done h1"
  shows "run (Suc (Suc n)) ev h (pre @ Emit now (ThreadRunFailed r) # rest) =
     Some (h1\<lparr>is_done := True\<rparr>,
           e1 @ snd (handleError h1
                  (new_Error (case last_error r of Some m \<Rightarrow> m | None \<Rightarrow> ''Run Failed''))))"
proof -
  let ?s = "pre @ Emit now (ThreadRunFailed r) # rest"
  let ?err = "snd (handleError h1 (new_Error (case last_error r of Some m \<Rightarrow> m | None \<Rightarrow> ''Run Failed'')))"
  have fa: "for_await ev h (initial_locals ?s) ?s =
        (h1\<lparr>is_done := True\<rparr>, loc1\<lparr>isCompleted := True\<rparr>, e1 @ ?err, Broke rest)"
    using for_await_append [OF pre, of "Emit now (ThreadRunFailed r) # rest"]
    by (simp add: loop_body_failed handleError_open [OF nd])
  have st: "\<not> isCompleted (initial_locals ?s)" "currentStream (initial_locals ?s) = ?s"
    by (simp_all add: initial_locals_def)
  have nx: "isCompleted (next_stream ev (loc1\<lparr>isCompleted := True\<rparr>) (Broke rest))"
    by (simp add: next_stream_def)
  have "while_loop (Suc n) ev (h1\<lparr>is_done := True\<rparr>)
          (next_stream ev (loc1\<lparr>isCompleted := True\<rparr>) (Broke rest)) =
        Some (h1\<lparr>is_done := True\<rparr>, [], None)"
    using nx by simp
  then have "while_loop (Suc (Suc n)) ev h (initial_locals ?s) =
      Some (h1\<lparr>is_done := True\<rparr>, e1 @ ?err, None)"
    using st fa by (simp del: while_loop.simps(2) add: while_loop.simps(2) [of "Suc n"])
  then show ?thesis
    by (simp add: run_def dispose_def del: while_loop.simps)
qed

lemma run_rejected:
  assumes pre: "for_await ev h (initial_locals (pre @ Reject error # rest)) pre = (h1, loc1, e1, Ended)"
    and nd: "\<not> is_done h1"
  shows "run (Suc n) ev h (pre @ Reject error # rest) =
     Some (h1\<lparr>is_done := True\<rparr>,
           e1 @ [ConsoleError [Txt ''An error occurred during the run:'', Exn error]] @
           snd (handleError h1 error))"
proof -
  let ?s = "pre @ Reject error # rest"
  have fa: "for_await ev h (initial_locals ?s) ?s = (h1, loc1, e1, Threw error)"
    using for_await_append [OF pre, of "Reject error # rest"] by simp
  have st: "\<not> isCompleted (initial_locals ?s)" "currentStream (initial_locals ?s) = ?s"
    by (simp_all add: initial_locals_def)
  have "while_loop (Suc n) ev h (initial_locals ?s) = Some (h1, e1, Some error)"
    using st fa by simp
  then show ?thesis
    by (simp add: run_def handleError_open [OF nd] dispose_def del: while_loop.simps)
qed

text \<open>
  C6. On a handler that is not disposed the error path sends the ERROR signal for the
  reply message, sets the text of the message to the message of the error (the fallback
  string when the thrown value has none) together with the field \<^verbatim>\<open>messaage\<close>, and
  disposes. When \<^verbatim>\<open>run\<close> has read a part of its stream to the end of that part and the next
  item is a run-failed event, or a rejection of the iterator, and the handler is not
  disposed, \<^verbatim>\<open>run\<close> returns with the effects of that part followed by those of the error
  path alone (after the log line of \<^verbatim>\<open>catch\<close>, for a rejection), for the error made from
  \<^verbatim>\<open>last_error\<close> (\<^verbatim>\<open>Run Failed\<close> without one) or the value thrown: whatever items follow on
  the stream, none is handled, and no tool outputs are submitted.
\<close>

theorem error_path:
  "(\<not> is_done h \<longrightarrow>
      handleError h error =
        (h\<lparr>is_done := True\<rparr>,
         [SendEvent (Ai_indicator_update AI_STATE_ERROR (msg_cid (message h)) (msg_id (message h))),
          PartialUpdateMessage (msg_id (message h))
            (case err_message error of
               Some m \<Rightarrow> m
             | None \<Rightarrow> ''An error occurred while generating the message.'')
            (Some (err_toString error)),
          ChatClientOff, OnDispose])) \<and>
   (for_await ev h (initial_locals (pre @ Emit now (ThreadRunFailed r) # rest)) pre = (h1, loc1, e1, Ended) \<and>
    \<not> is_done h1 \<longrightarrow>
      run (Suc (Suc n)) ev h (pre @ Emit now (ThreadRunFailed r) # rest) =
        Some (h1\<lparr>is_done := True\<rparr>,
              e1 @ snd (handleError h1
                     (new_Error (case last_error r of Some m \<Rightarrow> m | None \<Rightarrow> ''Run Failed''))))) \<and>
   (for_await ev h (initial_locals (pre @ Reject error # rest)) pre = (h1, loc1, e1, Ended) \<and>
    \<not> is_done h1 \<longrightarrow>
      run (Suc n) ev h (pre @ Reject error # rest) =
        Some (h1\<lparr>is_done := True\<rparr>,
              e1 @ [ConsoleError [Txt ''An error occurred during the run:'', Exn error]] @
              snd (handleError h1 error)))"
proof (intro conjI impI)
  assume "\<not> is_done h"
  then show "handleError h error =
        (h\<lparr>is_done := True\<rparr>,
         [SendEvent (Ai_indicator_update AI_STATE_ERROR (msg_cid (message h)) (msg_id (message h))),
          PartialUpdateMessage (msg_id (message h))
            (case err_message error of
               Some m \<Rightarrow> m
             | None \<Rightarrow> ''An error occurred while generating the message.'')
            (Some (err_toString error)),
          ChatClientOff, OnDispose])"
    by (rule handleError_open)
next
  assume "for_await ev h (initial_locals (pre @ Emit now (ThreadRunFailed r) # rest)) pre =
      (h1, loc1, e1, Ended) \<and> \<not> is_done h1"
  then show "run (Suc (Suc n)) ev h (pre @ Emit now (ThreadRunFailed r) # rest) =
        Some (h1\<lparr>is_done := True\<rparr>,
              e1 @ snd (handleError h1
                     (new_Error (case last_error r of Some m \<Rightarrow> m | None \<Rightarrow> ''Run Failed''))))"
    using run_failed by simp
next
  assume "for_await ev h (initial_locals (pre @ Reject error # rest)) pre = (h1, loc1, e1, Ended) \<and>
      \<not> is_done h1"
  then show "run (Suc n) ev h (pre @ Reject error # rest) =
        Some (h1\<lparr>is_done := True\<rparr>,
              e1 @ [ConsoleError [Txt ''An error occurred during the run:'', Exn error]] @
              snd (handleError h1 error))"
    using run_rejected by simp
qed

text \<open>
  Scenario E: a delta, then the run fails with the message \<^verbatim>\<open>rate limited\<close>, then more
  arrives on the stream.
\<close>

theorem error_path_witness:
  "for_await search_env fresh
     (initial_locals ([Emit 2000 (text_delta ''Hi'')] @
        Emit 2001 (ThreadRunFailed (run_1\<lparr>last_error := Some ''rate limited''\<rparr>)) #
        [Emit 2002 (text_delta '' there''), Emit 2003 (ThreadRunCompleted run_1)]))
     [Emit 2000 (text_delta ''Hi'')] =
     (fresh\<lparr>message := reply\<lparr>msg_text := ''Hi''\<rparr>, last_update_time := 2000, chunk_counter := 1\<rparr>,
      initial_locals ([Emit 2000 (text_delta ''Hi'')] @
        Emit 2001 (ThreadRunFailed (run_1\<lparr>last_error := Some ''rate limited''\<rparr>)) #
        [Emit 2002 (text_delta '' there''), Emit 2003 (ThreadRunCompleted run_1)]),
      [PartialUpdateMessage ''m1'' ''Hi'' None],
      Ended) \<and>
   \<not> is_done (fresh\<lparr>message := reply\<lparr>msg_text := ''Hi''\<rparr>, last_update_time := 2000, chunk_counter := 1\<rparr>) \<and>
   run 2 search_env fresh
     ([Emit 2000 (text_delta ''Hi'')] @
        Emit 2001 (ThreadRunFailed (run_1\<lparr>last_error := Some ''rate limited''\<rparr>)) #
        [Emit 2002 (text_delta '' there''), Emit 2003 (ThreadRunCompleted run_1)]) =
     Some (fresh\<lparr>message := reply\<lparr>msg_text := ''Hi''\<rparr>, last_update_time := 2000, chunk_counter := 1,
                  is_done := True\<rparr>,
           [PartialUpdateMessage ''m1'' ''Hi'' None,
            SendEvent (Ai_indicator_update AI_STATE_ERROR ''messaging:c1'' ''m1''),
            PartialUpdateMessage ''m1'' ''rate limited'' (Some ''Error: rate limited''),
            ChatClientOff, OnDispose])"
proof -
  let ?pre = "[Emit 2000 (text_delta ''Hi'')]"
  let ?r = "run_1\<lparr>last_error := Some ''rate limited''\<rparr>"
  let ?rest = "[Emit 2002 (text_delta '' there''), Emit 2003 (ThreadRunCompleted run_1)]"
  let ?h1 = "fresh\<lparr>message := reply\<lparr>msg_text := ''Hi''\<rparr>, last_update_time := 2000, chunk_counter := 1\<rparr>"
  have a: "for_await search_env fresh (initial_locals (?pre @ Emit 2001 (ThreadRunFailed ?r) # ?rest)) ?pre =
      (?h1, initial_locals (?pre @ Emit 2001 (ThreadRunFailed ?r) # ?rest),
       [PartialUpdateMessage ''m1'' ''Hi'' None], Ended)"
    by (simp add: loop_body_def handleStreamEvent_def text_delta_def first_delta_def Let_def
        submit_pending_def initial_locals_def fresh_def constructor_def reply_def)
  have b: "\<not> is_done ?h1" by (simp add: fresh_def constructor_def)
  have c: "snd (handleError ?h1 (new_Error ''rate limited'')) =
      [SendEvent (Ai_indicator_update AI_STATE_ERROR ''messaging:c1'' ''m1''),
       PartialUpdateMessage ''m1'' ''rate limited'' (Some ''Error: rate limited''),
       ChatClientOff, OnDispose]"
    using error_path [of ?h1 "new_Error ''rate limited''"] b
    by (simp add: new_Error_def reply_def)
  have "run (Suc (Suc 0)) search_env fresh (?pre @ Emit 2001 (ThreadRunFailed ?r) # ?rest) =
      Some (?h1\<lparr>is_done := True\<rparr>, [PartialUpdateMessage ''m1'' ''Hi'' None] @
          snd (handleError ?h1 (new_Error ''rate limited'')))"
    using error_path [where h = fresh and ev = search_env and pre = ?pre and now = 2001 and r = ?r
        and rest = ?rest and ?h1.0 = ?h1
        and ?loc1.0 = "initial_locals (?pre @ Emit 2001 (ThreadRunFailed ?r) # ?rest)"
        and ?e1.0 = "[PartialUpdateMessage ''m1'' ''Hi'' None]" and n = 0] a b
    by (simp add: run_1_def)
  then have "run 2 search_env fresh (?pre @ Emit 2001 (ThreadRunFailed ?r) # ?rest) =
      Some (?h1\<lparr>is_done := True\<rparr>,
        [PartialUpdateMessage ''m1'' ''Hi'' None,
            SendEvent (Ai_indicator_update AI_STATE_ERROR ''messaging:c1'' ''m1''),
            PartialUpdateMessage ''m1'' ''rate limited'' (Some ''Error: rate limited''),
            ChatClientOff, OnDispose])"
    by (simp only: c numeral_2_eq_2 append.simps)
  with a b show ?thesis by simp
qed

section \<open>Tool calls\<close>

lemma tool_loop_outputs:
  "fst (tool_loop ev tcs outs) =
     outs @ map (\<lambda>tc. \<lparr>tool_call_id = tc_id tc,
                        output_str = (case fst (tool_try ev tc) of
                                        Inr res \<Rightarrow> res
                                      | Inl t \<Rightarrow> JSON_stringify (JObj [(''error'', JStr ''Failed to call tool'')]))\<rparr>)
                (filter (\<lambda>tc. fn_name tc = ''web_search'') tcs)"
proof (induction tcs arbitrary: outs)
  case Nil
  show ?case by simp
next
  case (Cons tc tcs)
  show ?case
  proof (cases "fn_name tc = ''web_search''")
    case False
    with Cons.IH [of outs] show ?thesis by simp
  next
    case True
    obtain res effs where tt: "tool_try ev tc = (res, effs)" by (cases "tool_try ev tc")
    define out where "out = \<lparr>tool_call_id = tc_id tc,
                        output_str = (case res of
                                        Inr res \<Rightarrow> res
                                      | Inl t \<Rightarrow> JSON_stringify (JObj [(''error'', JStr ''Failed to call tool'')]))\<rparr>"
    have "fst (tool_loop ev (tc # tcs) outs) = fst (tool_loop ev tcs (outs @ [out]))"
      using True tt by (cases res) (simp_all add: out_def split: prod.splits)
    with Cons.IH [of "outs @ [out]"] True tt show ?thesis
      by (simp add: out_def)
  qed
qed

text \<open>
  The invoker fails for a call whose query cannot be printed: the first log line of
  \<^verbatim>\<open>performWebSearch\<close> throws, whatever the provider would answer.
\<close>

lemma tool_try_unprintable:
  assumes "TAVILY_API_KEY ev = Some key" and "key \<noteq> []"
    and "fn_arguments tc = Encoded (JObj kvs)" and "map_of (rev kvs) ''query'' = Some q"
    and "\<not> printable q"
  shows "tool_try ev tc = (Inl cannot_convert, [])"
  using assms
  by (simp add: tool_try_def JSON_parse_def get_query_def printable_query_def
      performWebSearch_unprintable [of ev key])

lemma tool_try_malformed: "fn_arguments tc = Malformed s \<Longrightarrow> \<exists>t. tool_try ev tc = (Inl t, [])"
  by (simp add: tool_try_def JSON_parse_def)

text \<open>
  C2, as the code has it. For a requires-action event with tool calls the loop body breaks
  with a batch that holds exactly one output for every tool call whose function name is
  \<^verbatim>\<open>web_search\<close>, in the order of the calls and keyed by the identifier of the call: the
  result of the search, or the error payload \<^verbatim>\<open>Failed to call tool\<close> when the arguments do
  not parse or the search throws. So a batch of \<^verbatim>\<open>web_search\<close> calls, the one function the
  agent registers, has one output for each call. A tool call of another name gets no
  output.
\<close>

theorem requires_action_outputs:
  assumes "required_action r = Some tcs"
    and "loop_body ev h loc now (ThreadRunRequiresAction r) = (h', loc', effs, c)"
  shows "c = Break \<and>
     toolOutputs loc' =
       map (\<lambda>tc. \<lparr>tool_call_id = tc_id tc,
                   output_str = (case fst (tool_try ev tc) of
                                   Inr res \<Rightarrow> res
                                 | Inl t \<Rightarrow> JSON_stringify (JObj [(''error'', JStr ''Failed to call tool'')]))\<rparr>)
           (filter (\<lambda>tc. fn_name tc = ''web_search'') tcs) \<and>
     map tool_call_id (toolOutputs loc') = map tc_id (filter (\<lambda>tc. fn_name tc = ''web_search'') tcs) \<and>
     (list_all (\<lambda>tc. fn_name tc = ''web_search'') tcs \<longrightarrow>
        map tool_call_id (toolOutputs loc') = map tc_id tcs \<and>
        length (toolOutputs loc') = length tcs)"
proof -
  obtain outs es where tl: "tool_loop ev tcs [] = (outs, es)" by (cases "tool_loop ev tcs []")
  from assms tl have c: "c = Break" and o: "toolOutputs loc' = outs"
    by (auto simp: loop_body_def handleStreamEvent_def Let_def split: prod.splits)
  from tool_loop_outputs [of ev tcs "[]"] tl
  have outs: "outs = map (\<lambda>tc. \<lparr>tool_call_id = tc_id tc,
                   output_str = (case fst (tool_try ev tc) of
                                   Inr res \<Rightarrow> res
                                 | Inl t \<Rightarrow> JSON_stringify (JObj [(''error'', JStr ''Failed to call tool'')]))\<rparr>)
           (filter (\<lambda>tc. fn_name tc = ''web_search'') tcs)" by simp
  then have ids: "map tool_call_id outs = map tc_id (filter (\<lambda>tc. fn_name tc = ''web_search'') tcs)"
    by (simp add: comp_def)
  have all: "list_all (\<lambda>tc. fn_name tc = ''web_search'') tcs \<Longrightarrow>
      filter (\<lambda>tc. fn_name tc = ''web_search'') tcs = tcs"
    by (simp add: list_all_iff)
  have "list_all (\<lambda>tc. fn_name tc = ''web_search'') tcs \<longrightarrow>
        map tool_call_id outs = map tc_id tcs \<and> length outs = length tcs"
  proof
    assume w: "list_all (\<lambda>tc. fn_name tc = ''web_search'') tcs"
    from ids all [OF w] have i: "map tool_call_id outs = map tc_id tcs" by simp
    from i have "length outs = length tcs" by (rule map_eq_imp_length_eq)
    with i show "map tool_call_id outs = map tc_id tcs \<and> length outs = length tcs" by simp
  qed
  with c o outs ids show ?thesis by simp
qed

lemma four_calls:
  "loop_body search_env fresh (initial_locals []) 5
     (ThreadRunRequiresAction
        (run_1\<lparr>required_action := Some [weather_call, other_call, broken_call, unprintable_call]\<rparr>)) =
   (fresh\<lparr>run_id := ''run_1''\<rparr>,
    (initial_locals [])\<lparr>toolOutputs :=
       [\<lparr>tool_call_id = ''call_1'', output_str = Encoded (JObj [(''answer'', JStr ''sunny'')])\<rparr>,
        \<lparr>tool_call_id = ''call_3'', output_str = Encoded (JObj [(''error'', JStr ''Failed to call tool'')])\<rparr>,
        \<lparr>tool_call_id = ''call_4'', output_str = Encoded (JObj [(''error'', JStr ''Failed to call tool'')])\<rparr>]\<rparr>,
    [SendEvent (Ai_indicator_update AI_STATE_EXTERNAL_SOURCES ''messaging:c1'' ''m1''),
     ConsoleLog [Txt ''Performing a web search for '', Val (Some (JStr ''weather''))],
     AxiosPost (search_body (Some (JStr ''weather''))) ''tvly-key'',
     ConsoleLog [Txt ''Tavily Search Successful for query: '', Val (Some (JStr ''weather''))],
     ConsoleError [Txt ''Error parsing the tool arguments or performing the web search. Error: '',
                   Exn (Thrown (Some ''Unexpected token'') ''SyntaxError: Unexpected token'')],
     ConsoleError [Txt ''Error parsing the tool arguments or performing the web search. Error: '',
                   Exn (Thrown (Some ''Cannot convert object to primitive value'')
                          ''TypeError: Cannot convert object to primitive value'')]],
    Break)"
  by (simp add: loop_body_def handleStreamEvent_def Let_def fresh_def constructor_def reply_def
      initial_locals_def run_1_def weather_call_def other_call_def broken_call_def
      unprintable_call_def search_env_def tool_try_def JSON_parse_def get_query_def
      performWebSearch_def search_try_def JSON_stringify_def printable_query_def cannot_convert_def)

lemma two_searches:
  "loop_body search_env fresh (initial_locals []) 5
     (ThreadRunRequiresAction (run_1\<lparr>required_action := Some [unprintable_call, weather_call]\<rparr>)) =
   (fresh\<lparr>run_id := ''run_1''\<rparr>,
    (initial_locals [])\<lparr>toolOutputs :=
       [\<lparr>tool_call_id = ''call_4'', output_str = Encoded (JObj [(''error'', JStr ''Failed to call tool'')])\<rparr>,
        \<lparr>tool_call_id = ''call_1'', output_str = Encoded (JObj [(''answer'', JStr ''sunny'')])\<rparr>]\<rparr>,
    [SendEvent (Ai_indicator_update AI_STATE_EXTERNAL_SOURCES ''messaging:c1'' ''m1''),
     ConsoleError [Txt ''Error parsing the tool arguments or performing the web search. Error: '',
                   Exn (Thrown (Some ''Cannot convert object to primitive value'')
                          ''TypeError: Cannot convert object to primitive value'')],
     ConsoleLog [Txt ''Performing a web search for '', Val (Some (JStr ''weather''))],
     AxiosPost (search_body (Some (JStr ''weather''))) ''tvly-key'',
     ConsoleLog [Txt ''Tavily Search Successful for query: '', Val (Some (JStr ''weather''))]],
    Break)"
  by (simp add: loop_body_def handleStreamEvent_def Let_def fresh_def constructor_def reply_def
      initial_locals_def run_1_def weather_call_def unprintable_call_def search_env_def
      tool_try_def JSON_parse_def get_query_def performWebSearch_def search_try_def
      JSON_stringify_def printable_query_def cannot_convert_def)

text \<open>
  Two batches: a search that succeeds, a call of another function, arguments that do not
  parse and a query that makes the search throw; and the last and the first of these
  alone, a batch of \<^verbatim>\<open>web_search\<close> calls.
\<close>

theorem requires_action_outputs_witness:
  "required_action (run_1\<lparr>required_action := Some [weather_call, other_call, broken_call, unprintable_call]\<rparr>) =
     Some [weather_call, other_call, broken_call, unprintable_call] \<and>
   toolOutputs (fst (snd (loop_body search_env fresh (initial_locals []) 5
     (ThreadRunRequiresAction
        (run_1\<lparr>required_action := Some [weather_call, other_call, broken_call, unprintable_call]\<rparr>))))) =
     [\<lparr>tool_call_id = ''call_1'', output_str = Encoded (JObj [(''answer'', JStr ''sunny'')])\<rparr>,
      \<lparr>tool_call_id = ''call_3'', output_str = Encoded (JObj [(''error'', JStr ''Failed to call tool'')])\<rparr>,
      \<lparr>tool_call_id = ''call_4'', output_str = Encoded (JObj [(''error'', JStr ''Failed to call tool'')])\<rparr>] \<and>
   fst (tool_try search_env weather_call) = Inr (Encoded (JObj [(''answer'', JStr ''sunny'')])) \<and>
   fst (tool_try search_env broken_call) =
     Inl (Thrown (Some ''Unexpected token'') ''SyntaxError: Unexpected token'') \<and>
   fst (tool_try search_env unprintable_call) = Inl cannot_convert \<and>
   list_all (\<lambda>tc. fn_name tc = ''web_search'') [unprintable_call, weather_call] \<and>
   map tool_call_id (toolOutputs (fst (snd (loop_body search_env fresh (initial_locals []) 5
     (ThreadRunRequiresAction (run_1\<lparr>required_action := Some [unprintable_call, weather_call]\<rparr>)))))) =
     [''call_4'', ''call_1''] \<and>
   length (toolOutputs (fst (snd (loop_body search_env fresh (initial_locals []) 5
     (ThreadRunRequiresAction (run_1\<lparr>required_action := Some [unprintable_call, weather_call]\<rparr>)))))) = 2"
proof -
  let ?four = "[weather_call, other_call, broken_call, unprintable_call]"
  let ?two = "[unprintable_call, weather_call]"
  let ?r4 = "run_1\<lparr>required_action := Some ?four\<rparr>"
  let ?r2 = "run_1\<lparr>required_action := Some ?two\<rparr>"
  let ?failed = "Encoded (JObj [(''error'', JStr ''Failed to call tool'')])"
  have a4: "required_action ?r4 = Some ?four" and a2: "required_action ?r2 = Some ?two" by simp_all
  have t1: "fst (tool_try search_env weather_call) = Inr (Encoded (JObj [(''answer'', JStr ''sunny'')]))"
    by (simp add: tool_try_def weather_call_def JSON_parse_def get_query_def performWebSearch_def
        search_try_def search_env_def printable_query_def JSON_stringify_def Let_def)
  have t3: "fst (tool_try search_env broken_call) =
      Inl (Thrown (Some ''Unexpected token'') ''SyntaxError: Unexpected token'')"
    by (simp add: tool_try_def broken_call_def JSON_parse_def)
  have t4: "fst (tool_try search_env unprintable_call) = Inl cannot_convert"
    using tool_try_unprintable [of search_env "''tvly-key''" unprintable_call
        "[(''query'', JObj [(''toString'', JNum 1)])]" "JObj [(''toString'', JNum 1)]"]
    by (simp add: search_env_def unprintable_call_def)
  have names: "filter (\<lambda>tc. fn_name tc = ''web_search'') ?four = [weather_call, broken_call, unprintable_call]"
    "list_all (\<lambda>tc. fn_name tc = ''web_search'') ?two"
    by (simp_all add: weather_call_def other_call_def broken_call_def unprintable_call_def)
  have ids: "tc_id weather_call = ''call_1''" "tc_id broken_call = ''call_3''"
    "tc_id unprintable_call = ''call_4''"
    by (simp_all add: weather_call_def broken_call_def unprintable_call_def)
  from requires_action_outputs [OF a4 four_calls]
  have "toolOutputs ((initial_locals [])\<lparr>toolOutputs :=
       [\<lparr>tool_call_id = ''call_1'', output_str = Encoded (JObj [(''answer'', JStr ''sunny'')])\<rparr>,
        \<lparr>tool_call_id = ''call_3'', output_str = ?failed\<rparr>,
        \<lparr>tool_call_id = ''call_4'', output_str = ?failed\<rparr>]\<rparr>) =
       map (\<lambda>tc. \<lparr>tool_call_id = tc_id tc,
                   output_str = (case fst (tool_try search_env tc) of
                                   Inr res \<Rightarrow> res
                                 | Inl t \<Rightarrow> JSON_stringify (JObj [(''error'', JStr ''Failed to call tool'')]))\<rparr>)
           (filter (\<lambda>tc. fn_name tc = ''web_search'') ?four)"
    by blast
  then have four: "toolOutputs (fst (snd (loop_body search_env fresh (initial_locals []) 5
        (ThreadRunRequiresAction ?r4)))) =
     [\<lparr>tool_call_id = ''call_1'', output_str = Encoded (JObj [(''answer'', JStr ''sunny'')])\<rparr>,
      \<lparr>tool_call_id = ''call_3'', output_str = ?failed\<rparr>,
      \<lparr>tool_call_id = ''call_4'', output_str = ?failed\<rparr>]"
    by (simp add: four_calls)
  from requires_action_outputs [OF a2 two_searches] names(2)
  have "map tool_call_id (toolOutputs ((initial_locals [])\<lparr>toolOutputs :=
       [\<lparr>tool_call_id = ''call_4'', output_str = ?failed\<rparr>,
        \<lparr>tool_call_id = ''call_1'', output_str = Encoded (JObj [(''answer'', JStr ''sunny'')])\<rparr>]\<rparr>)) =
       map tc_id ?two \<and>
     length (toolOutputs ((initial_locals [])\<lparr>toolOutputs :=
       [\<lparr>tool_call_id = ''call_4'', output_str = ?failed\<rparr>,
        \<lparr>tool_call_id = ''call_1'', output_str = Encoded (JObj [(''answer'', JStr ''sunny'')])\<rparr>]\<rparr>)) =
       length ?two"
    by blast
  then have two: "map tool_call_id (toolOutputs (fst (snd (loop_body search_env fresh (initial_locals []) 5
        (ThreadRunRequiresAction ?r2))))) = [''call_4'', ''call_1'']"
    "length (toolOutputs (fst (snd (loop_body search_env fresh (initial_locals []) 5
        (ThreadRunRequiresAction ?r2))))) = 2"
    by (simp_all add: two_searches)
  from a4 four t1 t3 t4 names(2) two show ?thesis by simp
qed

text \<open>
  C2, as stated, fails: of two tool calls, one for \<^verbatim>\<open>web_search\<close> and one for another
  function, the batch answers one.
\<close>

theorem one_output_per_call_counterexample:
  "length (toolOutputs (fst (snd (loop_body search_env fresh (initial_locals []) 5
      (ThreadRunRequiresAction (run_1\<lparr>required_action := Some [weather_call, other_call]\<rparr>)))))) = 1 \<and>
   length [weather_call, other_call] = 2"
  by (simp add: loop_body_def handleStreamEvent_def Let_def fresh_def constructor_def reply_def
      initial_locals_def run_1_def weather_call_def other_call_def search_env_def tool_try_def
      JSON_parse_def get_query_def performWebSearch_def search_try_def JSON_stringify_def search_body_def
      printable_query_def)

section \<open>Resuming the run\<close>

lemma search_catch_no_submit: "\<not> list_ex is_submit (snd (search_catch query error))"
  by (cases error) (simp_all add: search_catch_def Let_def)

lemma performWebSearch_no_submit: "\<not> list_ex is_submit (snd (performWebSearch ev query))"
proof (cases "TAVILY_API_KEY ev = None \<or> TAVILY_API_KEY ev = Some []")
  case True
  then show ?thesis by (simp add: performWebSearch_no_key)
next
  case False
  then obtain key where k: "TAVILY_API_KEY ev = Some key" "key \<noteq> []" by auto
  show ?thesis
  proof (cases "printable_query query")
    case False
    then show ?thesis by (simp add: performWebSearch_unprintable [OF k])
  next
    case True
    show ?thesis
      using search_catch_no_submit
      by (simp add: performWebSearch_key [OF k True] split: sum.splits)
  qed
qed

lemma tool_try_no_submit: "\<not> list_ex is_submit (snd (tool_try ev tc))"
  using performWebSearch_no_submit
  by (simp add: tool_try_def split: sum.splits)

lemma tool_loop_no_submit: "\<not> list_ex is_submit (snd (tool_loop ev tcs outs))"
proof (induction tcs arbitrary: outs)
  case Nil
  show ?case by simp
next
  case (Cons tc tcs)
  obtain res effs where tt: "tool_try ev tc = (res, effs)" by (cases "tool_try ev tc")
  with tool_try_no_submit [of ev tc] have e: "\<not> list_ex is_submit effs" by simp
  show ?case
  proof (cases "fn_name tc = ''web_search''")
    case False
    with Cons.IH show ?thesis by simp
  next
    case True
    show ?thesis
    proof (cases res)
      case (Inl t)
      obtain o' e' where r: "tool_loop ev tcs
          (outs @ [\<lparr>tool_call_id = tc_id tc,
                    output_str = JSON_stringify (JObj [(''error'', JStr ''Failed to call tool'')])\<rparr>]) = (o', e')"
        by (cases "tool_loop ev tcs
          (outs @ [\<lparr>tool_call_id = tc_id tc,
                    output_str = JSON_stringify (JObj [(''error'', JStr ''Failed to call tool'')])\<rparr>])")
      with Cons.IH [of "outs @ [\<lparr>tool_call_id = tc_id tc,
                    output_str = JSON_stringify (JObj [(''error'', JStr ''Failed to call tool'')])\<rparr>]"]
      have "\<not> list_ex is_submit e'" by simp
      with True tt Inl r e show ?thesis by simp
    next
      case (Inr v)
      obtain o' e' where r: "tool_loop ev tcs (outs @ [\<lparr>tool_call_id = tc_id tc, output_str = v\<rparr>]) = (o', e')"
        by (cases "tool_loop ev tcs (outs @ [\<lparr>tool_call_id = tc_id tc, output_str = v\<rparr>])")
      with Cons.IH [of "outs @ [\<lparr>tool_call_id = tc_id tc, output_str = v\<rparr>]"]
      have "\<not> list_ex is_submit e'" by simp
      with True tt Inr r e show ?thesis by simp
    qed
  qed
qed

text \<open>
  The iteration that collects a batch breaks without submitting it, and leaves
  \<^verbatim>\<open>currentStream\<close> as it was: the submission stands inside the inner loop, behind the
  \<^verbatim>\<open>break\<close>, where only a later event that is neither requires-action, completed nor
  failed reaches it.
\<close>

lemma requires_action_no_submit:
  assumes "required_action r = Some tcs"
    and "loop_body ev h loc now (ThreadRunRequiresAction r) = (h', loc', effs, c)"
  shows "c = Break \<and> \<not> list_ex is_submit effs \<and> currentStream loc' = currentStream loc \<and>
     reassigned loc' = reassigned loc \<and> isCompleted loc' = isCompleted loc"
proof -
  obtain outs es where tl: "tool_loop ev tcs [] = (outs, es)" by (cases "tool_loop ev tcs []")
  with tool_loop_no_submit [of ev tcs "[]"] have "\<not> list_ex is_submit es" by simp
  with assms tl show ?thesis
    by (auto simp: loop_body_def handleStreamEvent_def Let_def)
qed

text \<open>An ended stream that is read again, the run not completed, is read for ever.\<close>

lemma ended_stream_spins:
  "\<not> isCompleted loc \<Longrightarrow> \<not> reassigned loc \<Longrightarrow> currentStream loc = [] \<Longrightarrow>
   while_loop n ev h loc = None"
proof (induction n arbitrary: loc)
  case 0
  show ?case by simp
next
  case (Suc n)
  have "while_loop n ev h (next_stream ev loc Ended) = None"
    by (rule Suc.IH) (simp_all add: next_stream_def Suc.prems)
  with Suc.prems show ?case by simp
qed

lemma scenario_B_inner:
  "for_await search_env fresh (initial_locals scenario_B) scenario_B =
     (fresh\<lparr>run_id := ''run_1''\<rparr>,
      (initial_locals scenario_B)\<lparr>toolOutputs :=
         [\<lparr>tool_call_id = ''call_1'', output_str = Encoded (JObj [(''answer'', JStr ''sunny'')])\<rparr>]\<rparr>,
      [SendEvent (Ai_indicator_update AI_STATE_EXTERNAL_SOURCES ''messaging:c1'' ''m1''),
       ConsoleLog [Txt ''Performing a web search for '', Val (Some (JStr ''weather''))],
       AxiosPost (search_body (Some (JStr ''weather''))) ''tvly-key'',
       ConsoleLog [Txt ''Tavily Search Successful for query: '', Val (Some (JStr ''weather''))]],
      Broke [])"
  by (simp add: scenario_B_def loop_body_def handleStreamEvent_def Let_def fresh_def constructor_def
      reply_def initial_locals_def run_1_def weather_call_def search_env_def tool_try_def
      JSON_parse_def get_query_def submit_pending_def performWebSearch_def search_try_def
      JSON_stringify_def printable_query_def)

text \<open>
  C1, on the code. In scenario B the inner loop collects the output of the one tool call
  and breaks; its trace holds no submission of tool outputs, the batch stays pending, and
  \<^verbatim>\<open>run\<close>, reading the ended stream again and again, does not return within any fuel. The
  claim has one submission, keyed to \<^verbatim>\<open>run_1\<close>, and the new stream read next.
\<close>

theorem scenario_B_never_resumes:
  "(\<forall>n. run n search_env fresh scenario_B = None) \<and>
   \<not> list_ex is_submit (fst (snd (snd (for_await search_env fresh (initial_locals scenario_B) scenario_B)))) \<and>
   toolOutputs (fst (snd (for_await search_env fresh (initial_locals scenario_B) scenario_B))) =
     [\<lparr>tool_call_id = ''call_1'', output_str = Encoded (JObj [(''answer'', JStr ''sunny'')])\<rparr>] \<and>
   snd (snd (snd (for_await search_env fresh (initial_locals scenario_B) scenario_B))) = Broke []"
proof (intro conjI allI)
  fix n
  show "run n search_env fresh scenario_B = None"
  proof (cases n)
    case 0
    then show ?thesis by (simp add: run_def)
  next
    case (Suc m)
    let ?loc = "(initial_locals scenario_B)\<lparr>toolOutputs :=
       [\<lparr>tool_call_id = ''call_1'', output_str = Encoded (JObj [(''answer'', JStr ''sunny'')])\<rparr>]\<rparr>"
    have "while_loop m search_env (fresh\<lparr>run_id := ''run_1''\<rparr>)
        (next_stream search_env ?loc (Broke [])) = None"
      by (rule ended_stream_spins) (simp_all add: next_stream_def initial_locals_def search_env_def)
    then have "while_loop (Suc m) search_env fresh (initial_locals scenario_B) = None"
      using scenario_B_inner by (simp add: initial_locals_def)
    then show ?thesis using Suc by (simp add: run_def del: while_loop.simps)
  qed
qed (simp_all add: scenario_B_inner)

section \<open>Events after disposal\<close>

text \<open>
  C3, on the code. The handler that a stop-generating signal has disposed is handed two
  late events of its stream by the loop, a text delta and the completed message: the
  delta pushes its text, and the completed message pushes the final text and sends the
  clear signal. \<^verbatim>\<open>handleStreamEvent\<close> does not test the flag that \<^verbatim>\<open>handleStopGenerating\<close>,
  \<^verbatim>\<open>handleError\<close> and \<^verbatim>\<open>dispose\<close> test.
\<close>

theorem late_events_after_dispose:
  "is_done stopped \<and>
   handleStopGenerating search_env stopped (Some ''m1'') = (stopped, []) \<and>
   for_await search_env stopped (initial_locals [])
     [Emit 5000 (text_delta ''late''), Emit 5001 (ThreadMessageCompleted [TextContentBlock ''late text''])] =
     (stopped\<lparr>message := reply\<lparr>msg_text := ''late''\<rparr>, last_update_time := 5000, chunk_counter := 1\<rparr>,
      initial_locals [],
      [PartialUpdateMessage ''m1'' ''late'' None,
       PartialUpdateMessage ''m1'' ''late text'' None,
       SendEvent (Ai_indicator_clear ''messaging:c1'' ''m1'')],
      Ended)"
  by (simp add: stopped_def handleStopGenerating_def dispose_def search_env_def loop_body_def
      handleStreamEvent_def Let_def fresh_def constructor_def reply_def initial_locals_def
      text_delta_def first_delta_def submit_pending_def)

end
